theory Spec2Isabelle
  imports Complex_Main "HOL-Library.Log_Nat" "HOL-Library.AList"
begin

section \<open>Python values and exceptions used by cam.py\<close>

text \<open>
  An exception raised inside the program is a value of type \<open>error\<close>.  Calls into the
  camera driver, Amazon S3, Amazon Rekognition and the MQTT client are external: when one
  of them raises, the program sees \<open>ServiceError\<close> with the collaborator that raised
  (\<open>Clock\<close> stands for \<open>time.sleep\<close>, which always returns).
  The other constructors are the exceptions the Python interpreter itself raises in the
  code of cam.py.
\<close>

datatype service = Camera | S3 | Rekognition | MQTT | Clock

datatype error =
    ServiceError service
  | UnicodeDecodeError
  | JSONDecodeError
  | RecursionError
  | TypeError
  | KeyError
  | AttributeError
  | ZeroDivisionError
  | OverflowError
  | UnboundLocalError

subsection \<open>Floats\<close>

text \<open>
  A Python float is an IEEE-754 binary64 number.  A finite float is modelled by the
  rational number it denotes; every arithmetic operation computes the exact result and
  rounds it to the nearest representable number, ties to the even significand
  (\<open>round_float\<close>).  The significand has 53 bits and the smallest quantum is
  \<open>2 ^ - 1074\<close> (subnormal numbers).
\<close>

definition pow2 :: "int \<Rightarrow> rat" where
  "pow2 k = (if 0 \<le> k then 2 ^ nat k else 1 / 2 ^ nat (- k))"

text \<open>The binary exponent of a positive rational: \<open>pow2 (ilog2 x) \<le> x < pow2 (ilog2 x + 1)\<close>.\<close>

definition ilog2 :: "rat \<Rightarrow> int" where
  "ilog2 x = (case quotient_of x of (a, b) \<Rightarrow>
     (let k = bitlen a - bitlen b in if pow2 k \<le> x then k else k - 1))"

definition round_half_even :: "rat \<Rightarrow> int" where
  "round_half_even y = (let f = \<lfloor>y\<rfloor>; r = y - of_int f in
     if r < 1 / 2 then f else if 1 / 2 < r then f + 1 else if even f then f else f + 1)"

definition quantum :: "rat \<Rightarrow> int" where
  "quantum x = max (ilog2 \<bar>x\<bar> - 52) (- 1074)"

definition round_float :: "rat \<Rightarrow> rat" where
  "round_float x = (if x = 0 then 0 else
     sgn x * of_int (round_half_even (\<bar>x\<bar> / pow2 (quantum x))) * pow2 (quantum x))"

text \<open>
  The relative error of one rounding of a normal number is at most \<open>unit_roundoff\<close>;
  the absolute error of one rounding of a subnormal number is at most
  \<open>half_min_quantum\<close>.
\<close>

definition unit_roundoff :: rat where
  "unit_roundoff = pow2 (- 53)"

definition half_min_quantum :: rat where
  "half_min_quantum = pow2 (- 1075)"

text \<open>
  \<open>a / b\<close> on two Python ints: the correctly rounded quotient, \<open>ZeroDivisionError\<close> for a
  zero divisor and \<open>OverflowError\<close> when the rounded quotient is not a finite float.
\<close>

definition int_truediv :: "nat \<Rightarrow> nat \<Rightarrow> error + rat" where
  "int_truediv a b =
     (if b = 0 then Inl ZeroDivisionError
      else (let r = round_float (of_nat a / of_nat b)
            in if 2 ^ 1024 \<le> r then Inl OverflowError else Inr r))"

text \<open>
  \<open>x - y\<close> on floats.  cam.py only computes \<open>1 - q\<close> for a finite float \<open>q\<close>, whose rounded
  value is finite, so infinities are not modelled.
\<close>

definition float_sub :: "rat \<Rightarrow> rat \<Rightarrow> rat" where
  "float_sub x y = round_float (x - y)"

subsection \<open>Strings\<close>

text \<open>
  The model covers ASCII text: a string is a sequence of characters with codes below 128
  (\<open>ascii_string\<close>).  On such a string \<open>str.capitalize()\<close> upper-cases the first
  character and lower-cases all the others, and \<open>needle in haystack\<close> is the substring
  test.  Outside ASCII Python applies the Unicode case mappings, which may even change
  the length, and \<open>capitalize\<close> below does not describe them: what is proved about it
  assumes \<open>ascii_string\<close>.
\<close>

definition ascii_string :: "string \<Rightarrow> bool" where
  "ascii_string s = list_all (\<lambda>c. (of_char c :: nat) < 128) s"

definition ascii_upper :: "char \<Rightarrow> char" where
  "ascii_upper c = (let n = (of_char c :: nat) in if 97 \<le> n \<and> n \<le> 122 then char_of (n - 32) else c)"

definition ascii_lower :: "char \<Rightarrow> char" where
  "ascii_lower c = (let n = (of_char c :: nat) in if 65 \<le> n \<and> n \<le> 90 then char_of (n + 32) else c)"

fun capitalize :: "string \<Rightarrow> string" where
  "capitalize [] = []"
| "capitalize (c # cs) = ascii_upper c # map ascii_lower cs"

fun str_contains :: "string \<Rightarrow> string \<Rightarrow> bool" where
  "str_contains needle [] = (needle = [])"
| "str_contains needle (c # cs) = (take (length needle) (c # cs) = needle \<or> str_contains needle cs)"

subsection \<open>JSON values\<close>

text \<open>
  The result of \<open>json.loads\<close>.  \<open>JDict\<close> holds the items of the resulting dict, so its keys
  are distinct.
\<close>

datatype json =
    JNull
  | JBool bool
  | JInt int
  | JFloat rat
  | JStr string
  | JList "json list"
  | JDict "(string \<times> json) list"

text \<open>A JSON value all of whose strings, keys included, are ASCII.\<close>

fun ascii_json :: "json \<Rightarrow> bool" where
  "ascii_json (JStr s) = ascii_string s"
| "ascii_json (JList xs) = (\<forall>x \<in> set xs. ascii_json x)"
| "ascii_json (JDict d) = (\<forall>kv \<in> set d. ascii_string (fst kv) \<and> ascii_json (snd kv))"
| "ascii_json _ = True"

text \<open>\<open>k in v\<close> for a string \<open>k\<close>.\<close>

fun py_in :: "string \<Rightarrow> json \<Rightarrow> error + bool" where
  "py_in k (JDict d) = Inr (map_of d k \<noteq> None)"
| "py_in k (JList xs) = Inr (List.member xs (JStr k))"
| "py_in k (JStr s) = Inr (str_contains k s)"
| "py_in k _ = Inl TypeError"

text \<open>\<open>v[k]\<close> for a string \<open>k\<close>.\<close>

fun py_getitem :: "json \<Rightarrow> string \<Rightarrow> error + json" where
  "py_getitem (JDict d) k = (case map_of d k of None \<Rightarrow> Inl KeyError | Some v \<Rightarrow> Inr v)"
| "py_getitem _ k = Inl TypeError"

text \<open>\<open>v.capitalize()\<close>: only strings have the method.\<close>

fun py_capitalize :: "json \<Rightarrow> error + string" where
  "py_capitalize (JStr s) = Inr (capitalize s)"
| "py_capitalize _ = Inl AttributeError"

section \<open>Constants of cam.py\<close>

definition CHANGE_THRESHOLD :: rat where
  "CHANGE_THRESHOLD = round_float (5 / 1000)"

definition SLEEP_TIME :: nat where
  "SLEEP_TIME = 3"

definition CLIENT_ID :: string where
  "CLIENT_ID = ''pyzcam''"

definition PUBLISH_TOPIC :: string where
  "PUBLISH_TOPIC = CLIENT_ID @ ''/out''"

definition SUBSCRIBE_TOPIC :: string where
  "SUBSCRIBE_TOPIC = CLIENT_ID @ ''/in''"

definition AWS_IOT_ENDPOINT :: string where
  "AWS_IOT_ENDPOINT = ''<YOUR_AWS_IOT_ENDPOINT>''"

definition REKOGNITION_COLLECTION_ID :: string where
  "REKOGNITION_COLLECTION_ID = ''security-camera''"

definition S3_BUCKET :: string where
  "S3_BUCKET = ''<YOUR_S3_BUCKET>''"

text \<open>\<open>S3_IMAGE_KEY.format(t)\<close> for \<open>S3_IMAGE_KEY = 'pizero/image-{}.jpg'\<close>.\<close>

definition S3_IMAGE_KEY :: "string \<Rightarrow> string" where
  "S3_IMAGE_KEY t = ''pizero/image-'' @ t @ ''.jpg''"

definition S3_SEEN_KEY :: string where
  "S3_SEEN_KEY = ''pizero/seen.json''"

section \<open>State, environment and effects\<close>

text \<open>
  Rekognition's answers.  The program reads only the name of a label and the number of
  face details; everything else is copied into the record it persists.
\<close>

record label =
  Name :: string
  Confidence :: rat

type_synonym face_detail = string
type_synonym celebrity = string
type_synonym face_match = string

text \<open>The values of the dict \<open>seen\<close> of \<open>analyse_image\<close>, and the bodies put into S3.\<close>

datatype seen_value =
    SImage string string
  | SLabels "label list"
  | SFaceDetails "face_detail list"
  | SCelebrityFaces "celebrity list"
  | SFaceMatches "face_match list"

type_synonym seen = "(string \<times> seen_value) list"

datatype body =
    ImageData "nat list"
  | SeenJson seen

text \<open>
  The module-level \<open>BytesIO\<close> object \<open>image\<close>: its bytes and its position.  Writing
  at a position overwrites what is there and keeps what lies beyond.
\<close>

record bytesio =
  buf :: "nat list"
  pos :: nat

definition bytesio_seek :: "bytesio \<Rightarrow> bytesio" where
  "bytesio_seek b = b\<lparr>pos := 0\<rparr>"

definition bytesio_write :: "nat list \<Rightarrow> bytesio \<Rightarrow> bytesio" where
  "bytesio_write d b = \<lparr>buf = take (pos b) (buf b) @ d @ drop (pos b + length d) (buf b),
                pos = pos b + length d\<rparr>"

definition bytesio_read_all :: "bytesio \<Rightarrow> bytesio" where
  "bytesio_read_all b = b\<lparr>pos := max (pos b) (length (buf b))\<rparr>"

definition bytesio_tell :: "bytesio \<Rightarrow> nat" where
  "bytesio_tell b = pos b"

text \<open>
  The mutable state: the two attributes of the function object \<open>use_camera\<close> (\<open>None\<close>
  while the attribute does not exist), the image buffer and the objects of the bucket.
\<close>

record world =
  uc_size :: "nat option"
  uc_camera_enabled :: "bool option"
  image_buf :: bytesio
  s3 :: "string \<rightharpoonup> body"

text \<open>
  What the outside world answers during one operation.  \<open>None\<close> means that the call
  raises.
\<close>

record env =
  capture_r :: "nat list option"
  strftime_r :: string
  put_object_r :: "string \<Rightarrow> string option"
  detect_labels_r :: "string \<Rightarrow> label list option"
  detect_faces_r :: "string \<Rightarrow> face_detail list option"
  recognize_celebrities_r :: "string \<Rightarrow> celebrity list option"
  search_faces_by_image_r :: "string \<Rightarrow> face_match list option"
  index_faces_r :: "string \<Rightarrow> string \<Rightarrow> string option"

text \<open>
  The observable events of a run, in order: every \<open>print\<close> (format string and
  arguments) and every external call with whether it returned.
\<close>

datatype call =
    Capture
  | PutObject string string body
  | DetectLabels string string
  | DetectFaces string string
  | RecognizeCelebrities string string
  | SearchFacesByImage string string string
  | IndexFaces string string string string
  | MqttConfigureCredentials string
  | MqttConfigureEndpoint string nat
  | MqttConnect
  | MqttPublish string string nat
  | MqttSubscribe string nat
  | Sleep nat

datatype payload = Undecodable | Malformed | TooDeep | Parsed json

datatype pyval =
    PStr string
  | PNat nat
  | PNum rat
  | PJson json
  | PPayload payload
  | PSeen seen_value

datatype event = Print string "pyval list" | Call call bool

type_synonym 'a prog = "world \<Rightarrow> (error + 'a) \<times> world \<times> event list"

definition ret :: "'a \<Rightarrow> 'a prog" where
  "ret x w = (Inr x, w, [])"

definition raise :: "error \<Rightarrow> 'a prog" where
  "raise e w = (Inl e, w, [])"

definition bnd :: "'a prog \<Rightarrow> ('a \<Rightarrow> 'b prog) \<Rightarrow> 'b prog" where
  "bnd m f w =
     (case m w of
        (Inl e, w1, es) \<Rightarrow> (Inl e, w1, es)
      | (Inr x, w1, es) \<Rightarrow> (case f x w1 of (r, w2, es') \<Rightarrow> (r, w2, es @ es')))"

definition lift :: "error + 'a \<Rightarrow> 'a prog" where
  "lift r w = (r, w, [])"

text \<open>
  \<open>print\<close> of a format string and its arguments.  The line is ASCII text whenever the
  arguments are, and then every encoding of the standard output can write it.  Text
  outside ASCII, which \<open>print\<close> may fail to encode (\<open>UnicodeEncodeError\<close>), is outside
  the model: what is proved about a line that shows a string of a message as it is
  (lines 45 and 77) assumes that the string is ASCII.
\<close>

definition print :: "string \<Rightarrow> pyval list \<Rightarrow> unit prog" where
  "print t args w = (Inr (), w, [Print t args])"

definition ext_call :: "call \<Rightarrow> service \<Rightarrow> 'a option \<Rightarrow> 'a prog" where
  "ext_call c sv r w =
     (case r of
        None \<Rightarrow> (Inl (ServiceError sv), w, [Call c False])
      | Some x \<Rightarrow> (Inr x, w, [Call c True]))"

definition modify :: "(world \<Rightarrow> world) \<Rightarrow> unit prog" where
  "modify f w = (Inr (), f w, [])"

definition get_state :: "(world \<Rightarrow> 'a) \<Rightarrow> 'a prog" where
  "get_state f w = (Inr (f w), w, [])"

definition get_attr :: "(world \<Rightarrow> 'a option) \<Rightarrow> 'a prog" where
  "get_attr a w = (case a w of None \<Rightarrow> (Inl AttributeError, w, []) | Some x \<Rightarrow> (Inr x, w, []))"

definition outcome :: "(error + 'a) \<times> world \<times> event list \<Rightarrow> error + 'a" where
  "outcome r = fst r"

definition final :: "(error + 'a) \<times> world \<times> event list \<Rightarrow> world" where
  "final r = fst (snd r)"

definition events :: "(error + 'a) \<times> world \<times> event list \<Rightarrow> event list" where
  "events r = snd (snd r)"

text \<open>The external calls among the events, with their success flags dropped or kept.\<close>

fun calls :: "event list \<Rightarrow> call list" where
  "calls [] = []"
| "calls (Print t args # es) = calls es"
| "calls (Call c ok # es) = c # calls es"

fun failed_calls :: "event list \<Rightarrow> call list" where
  "failed_calls [] = []"
| "failed_calls (Print t args # es) = failed_calls es"
| "failed_calls (Call c ok # es) = (if ok then failed_calls es else c # failed_calls es)"

section \<open>The functions of cam.py\<close>

definition enable_camera :: "unit prog" where
  "enable_camera =
     bnd (print ''Camera enabled'' []) (\<lambda>_.
     bnd (modify (\<lambda>w. w\<lparr>uc_size := Some 0\<rparr>)) (\<lambda>_.
     modify (\<lambda>w. w\<lparr>uc_camera_enabled := Some True\<rparr>)))"

definition disable_camera :: "unit prog" where
  "disable_camera =
     bnd (print ''Camera disabled'' []) (\<lambda>_.
     modify (\<lambda>w. w\<lparr>uc_camera_enabled := Some False\<rparr>))"

text \<open>
  \<open>camera.capture\<close> writes the JPEG bytes at the position of the buffer; a capture that
  raises is taken to have written nothing.
\<close>

definition take_picture :: "env \<Rightarrow> unit prog" where
  "take_picture en =
     bnd (modify (\<lambda>w. w\<lparr>image_buf := bytesio_seek (image_buf w)\<rparr>)) (\<lambda>_.
     bnd (ext_call Capture Camera (capture_r en)) (\<lambda>d.
     modify (\<lambda>w. w\<lparr>image_buf := bytesio_write d (image_buf w)\<rparr>)))"

text \<open>
  \<open>s3.put_object\<close> with \<open>Body=image\<close> sends the buffer from its position (0 after the
  seek) to its end and leaves the position at the end; a put that raises stores nothing.
\<close>

definition upload_image_and_get_key :: "env \<Rightarrow> string prog" where
  "upload_image_and_get_key en =
     bnd (print ''Uploading image to Amazon S3...'' []) (\<lambda>_.
     bnd (modify (\<lambda>w. w\<lparr>image_buf := bytesio_seek (image_buf w)\<rparr>)) (\<lambda>_.
     (let key = S3_IMAGE_KEY (strftime_r en) in
     bnd (print ''key = {}'' [PStr key]) (\<lambda>_.
     bnd (get_state (\<lambda>w. ImageData (drop (pos (image_buf w)) (buf (image_buf w))))) (\<lambda>data.
     bnd (ext_call (PutObject S3_BUCKET key data) S3 (put_object_r en key)) (\<lambda>response.
     bnd (modify (\<lambda>w. w\<lparr>image_buf := bytesio_read_all (image_buf w)\<rparr>)) (\<lambda>_.
     bnd (modify (\<lambda>w. w\<lparr>s3 := (s3 w)(key \<mapsto> data)\<rparr>)) (\<lambda>_.
     bnd (print ''{}'' [PStr response]) (\<lambda>_.
     ret key)))))))))"

definition upload_seen :: "env \<Rightarrow> body \<Rightarrow> unit prog" where
  "upload_seen en file =
     bnd (print ''Uploading file to Amazon S3...'' []) (\<lambda>_.
     bnd (print ''key = {}'' [PStr S3_SEEN_KEY]) (\<lambda>_.
     bnd (ext_call (PutObject S3_BUCKET S3_SEEN_KEY file) S3 (put_object_r en S3_SEEN_KEY)) (\<lambda>response.
     bnd (modify (\<lambda>w. w\<lparr>s3 := (s3 w)(S3_SEEN_KEY \<mapsto> file)\<rparr>)) (\<lambda>_.
     print ''{}'' [PStr response]))))"

text \<open>\<open>any('Person' in l['Name'] for l in labels)\<close>.\<close>

definition any_person :: "label list \<Rightarrow> bool" where
  "any_person ls = list_ex (\<lambda>l. str_contains ''Person'' (Name l)) ls"

text \<open>
  The local dict \<open>seen\<close> is threaded through the stages; \<open>seen[k] = v\<close> is
  \<open>AList.update k v\<close>, and \<open>json.dumps(seen)\<close> is the constructor \<open>SeenJson\<close>.
\<close>

definition analyse_image :: "env \<Rightarrow> string \<Rightarrow> unit prog" where
  "analyse_image en key =
     bnd (print ''Calling Amazon Rekognition...'' []) (\<lambda>_.
     (let seen0 = AList.update ''Image'' (SImage S3_BUCKET key) [] in
     bnd (print ''Looking for labels...'' []) (\<lambda>_.
     bnd (ext_call (DetectLabels S3_BUCKET key) Rekognition (detect_labels_r en key)) (\<lambda>labels.
     (let seen1 = AList.update ''Labels'' (SLabels labels) seen0 in
     bnd (print ''{}'' [PSeen (SLabels labels)]) (\<lambda>_.
     bnd (if any_person labels then
            bnd (print ''Looking for faces...'' []) (\<lambda>_.
            bnd (ext_call (DetectFaces S3_BUCKET key) Rekognition (detect_faces_r en key)) (\<lambda>faces.
            (let seen2 = AList.update ''FaceDetails'' (SFaceDetails faces) seen1 in
            bnd (print ''{}'' [PSeen (SFaceDetails faces)]) (\<lambda>_.
            if length faces > 0 then
              bnd (print ''Looking for celebrities...'' []) (\<lambda>_.
              bnd (ext_call (RecognizeCelebrities S3_BUCKET key) Rekognition
                     (recognize_celebrities_r en key)) (\<lambda>celebs.
              (let seen3 = AList.update ''CelebrityFaces'' (SCelebrityFaces celebs) seen2 in
              bnd (print ''{}'' [PSeen (SCelebrityFaces celebs)]) (\<lambda>_.
              bnd (print ''Looking for known faces...'' []) (\<lambda>_.
              bnd (ext_call (SearchFacesByImage REKOGNITION_COLLECTION_ID S3_BUCKET key) Rekognition
                     (search_faces_by_image_r en key)) (\<lambda>matches.
              (let seen4 = AList.update ''FaceMatches'' (SFaceMatches matches) seen3 in
              bnd (print ''{}'' [PSeen (SFaceMatches matches)]) (\<lambda>_.
              ret seen4))))))))
            else ret seen2))))
          else ret seen1) (\<lambda>seen.
     upload_seen en (SeenJson seen))))))))"

text \<open>
  Lines 97 to 100 of \<open>use_camera\<close>: the value assigned to the local \<open>size_change\<close> from
  \<open>previous_size\<close> and the new \<open>use_camera.size\<close>.
\<close>

definition size_change :: "nat \<Rightarrow> nat \<Rightarrow> error + rat" where
  "size_change previous_size new_size =
     (if previous_size > 0 then
        (case int_truediv new_size previous_size of
           Inl e \<Rightarrow> Inl e
         | Inr q \<Rightarrow> Inr \<bar>float_sub 1 q\<bar>)
      else Inr 0)"

text \<open>
  The condition \<open>once or size_change > CHANGE_THRESHOLD\<close>: \<open>or\<close> evaluates its right
  operand only when the left one is false, and reading a local that was never assigned
  raises \<open>UnboundLocalError\<close>.
\<close>

definition trigger_condition :: "bool \<Rightarrow> rat option \<Rightarrow> bool prog" where
  "trigger_condition once size_change_local =
     (if once then ret True
      else (case size_change_local of
              None \<Rightarrow> raise UnboundLocalError
            | Some c \<Rightarrow> ret (CHANGE_THRESHOLD < c)))"

definition use_camera :: "bool \<Rightarrow> env \<Rightarrow> unit prog" where
  "use_camera once en =
     bnd (take_picture en) (\<lambda>_.
     bnd (if \<not> once then
            bnd (get_attr uc_size) (\<lambda>previous_size.
            bnd (modify (\<lambda>w. w\<lparr>uc_size := Some (bytesio_tell (image_buf w))\<rparr>)) (\<lambda>_.
            bnd (get_attr uc_size) (\<lambda>new_size.
            bnd (lift (size_change previous_size new_size)) (\<lambda>c.
            bnd (print ''size: {0} - previous: {1} - change: {2}''
                   [PNat new_size, PNat previous_size, PNum c]) (\<lambda>_.
            ret (Some c))))))
          else ret None) (\<lambda>size_change_local.
     bnd (trigger_condition once size_change_local) (\<lambda>trigger.
     if trigger then
       bnd (upload_image_and_get_key en) (\<lambda>key.
       analyse_image en key)
     else ret ())))"

definition index_face :: "env \<Rightarrow> string \<Rightarrow> unit prog" where
  "index_face en name =
     bnd (print ''Indexing {}...'' [PStr name]) (\<lambda>_.
     bnd (take_picture en) (\<lambda>_.
     bnd (upload_image_and_get_key en) (\<lambda>key.
     bnd (ext_call (IndexFaces REKOGNITION_COLLECTION_ID S3_BUCKET key name) Rekognition
            (index_faces_r en key name)) (\<lambda>response.
     print ''{}'' [PStr response]))))"

text \<open>
  A message carries the outcome of \<open>json.loads(message.payload.decode('utf-8'))\<close> on its
  payload: bytes that are not UTF-8, text that is not JSON, text nested deeper than the
  interpreter's recursion limit, or the parsed value.
\<close>

record message =
  payload :: payload
  topic :: string

definition loads :: "payload \<Rightarrow> json prog" where
  "loads p =
     (case p of
        Undecodable \<Rightarrow> raise UnicodeDecodeError
      | Malformed \<Rightarrow> raise JSONDecodeError
      | TooDeep \<Rightarrow> raise RecursionError
      | Parsed v \<Rightarrow> ret v)"

definition message_received :: "env \<Rightarrow> message \<Rightarrow> unit prog" where
  "message_received en msg =
     bnd (print ''Received a new message: '' []) (\<lambda>_.
     bnd (print ''{}'' [PPayload (payload msg)]) (\<lambda>_.
     bnd (print ''from topic: '' []) (\<lambda>_.
     bnd (print ''{}'' [PStr (topic msg)]) (\<lambda>_.
     bnd (print ''--------------\<newline>\<newline>'' []) (\<lambda>_.
     bnd (loads (payload msg)) (\<lambda>pl.
     bnd (lift (py_in ''camera'' pl)) (\<lambda>has_camera.
     if has_camera then
       bnd (lift (py_getitem pl ''camera'')) (\<lambda>v.
       if v = JStr ''enable'' then enable_camera
       else if v = JStr ''disable'' then disable_camera
       else if v = JStr ''use'' then use_camera True en
       else print ''Unknown camera state: {}'' [PJson v])
     else
       bnd (lift (py_in ''index'' pl)) (\<lambda>has_index.
       if has_index then
         bnd (lift (py_getitem pl ''index'')) (\<lambda>v.
         bnd (lift (py_capitalize v)) (\<lambda>name.
         index_face en name))
       else print ''Unknown command: {}'' [PJson pl]))))))))"

text \<open>
  \<open>main\<close> up to the loop (lines 200 to 212), and one iteration of \<open>while True\<close>
  (lines 216 to 219).  \<open>mq\<close> tells which calls of the MQTT client return.
\<close>

definition main_setup :: "(call \<Rightarrow> unit option) \<Rightarrow> unit prog" where
  "main_setup mq =
     bnd (print ''Connecting to AWS IoT...'' []) (\<lambda>_.
     bnd (ext_call (MqttConfigureCredentials ''./rootCA.txt'') MQTT
            (mq (MqttConfigureCredentials ''./rootCA.txt''))) (\<lambda>_.
     bnd (ext_call (MqttConfigureEndpoint AWS_IOT_ENDPOINT 443) MQTT
            (mq (MqttConfigureEndpoint AWS_IOT_ENDPOINT 443))) (\<lambda>_.
     bnd (ext_call MqttConnect MQTT (mq MqttConnect)) (\<lambda>_.
     bnd (print ''Publishing to AWS IoT...'' []) (\<lambda>_.
     bnd (ext_call (MqttPublish PUBLISH_TOPIC ''myPayload'' 0) MQTT
            (mq (MqttPublish PUBLISH_TOPIC ''myPayload'' 0))) (\<lambda>_.
     bnd (print ''Subscribing to AWS IoT...'' []) (\<lambda>_.
     bnd (ext_call (MqttSubscribe SUBSCRIBE_TOPIC 1) MQTT
            (mq (MqttSubscribe SUBSCRIBE_TOPIC 1))) (\<lambda>_.
     bnd (print ''Ready to Go!'' []) (\<lambda>_.
     modify (\<lambda>w. w\<lparr>uc_camera_enabled := Some False\<rparr>))))))))))"

definition main_loop_body :: "env \<Rightarrow> unit prog" where
  "main_loop_body en =
     bnd (ext_call (Sleep SLEEP_TIME) Clock (Some ())) (\<lambda>_.
     bnd (get_attr uc_camera_enabled) (\<lambda>enabled.
     if enabled then use_camera False en else ret ()))"

text \<open>
  The part of the state the commands and the poll loop share, and the two steps a
  capture cycle is made of.
\<close>

definition camera_state :: "world \<Rightarrow> bool option \<times> nat option" where
  "camera_state w = (uc_camera_enabled w, uc_size w)"

definition captured :: "nat list \<Rightarrow> world \<Rightarrow> world" where
  "captured dta w = w\<lparr>image_buf := bytesio_write dta (bytesio_seek (image_buf w))\<rparr>"

definition upload_and_analyse :: "env \<Rightarrow> unit prog" where
  "upload_and_analyse en = bnd (upload_image_and_get_key en) (analyse_image en)"

text \<open>
  The state when the module has been loaded (lines 24 to 29): the buffer is empty and the
  function object \<open>use_camera\<close> has no attribute yet.  The bucket holds whatever it
  held.
\<close>

definition initial_world :: "(string \<rightharpoonup> body) \<Rightarrow> world" where
  "initial_world bucket =
     \<lparr>uc_size = None, uc_camera_enabled = None, image_buf = \<lparr>buf = [], pos = 0\<rparr>, s3 = bucket\<rparr>"

text \<open>
  The loop \<open>while True\<close> never ends by itself; a run is modelled by a finite prefix, given
  by what happens in order: an iteration of the loop, or a message delivered to the
  callback between two iterations.  An exception raised in an iteration ends \<open>main\<close>;
  an exception raised in the callback is raised in the MQTT client and does not reach
  the loop.
\<close>

datatype stimulus = Tick env | Message env message

definition callback :: "unit prog \<Rightarrow> unit prog" where
  "callback m w = (case m w of (r, w1, es) \<Rightarrow> (Inr (), w1, es))"

fun main_loop :: "stimulus list \<Rightarrow> unit prog" where
  "main_loop [] = ret ()"
| "main_loop (Tick en # ss) = bnd (main_loop_body en) (\<lambda>_. main_loop ss)"
| "main_loop (Message en msg # ss) =
     bnd (callback (message_received en msg)) (\<lambda>_. main_loop ss)"

definition main :: "(call \<Rightarrow> unit option) \<Rightarrow> stimulus list \<Rightarrow> unit prog" where
  "main mq ss = bnd (main_setup mq) (\<lambda>_. main_loop ss)"

text \<open>
  Both attributes a periodic capture reads exist: the flag always, the remembered size
  whenever the flag is set.
\<close>

definition size_known_when_enabled :: "world \<Rightarrow> bool" where
  "size_known_when_enabled w =
     (uc_camera_enabled w \<noteq> None \<and> (uc_camera_enabled w = Some True \<longrightarrow> uc_size w \<noteq> None))"

text \<open>
  The change ratio in the words of the specification, as a number:
  \<open>|1 - currentSize / previousSize|\<close>.
\<close>

definition exact_ratio :: "nat \<Rightarrow> nat \<Rightarrow> rat" where
  "exact_ratio previous_size new_size = \<bar>1 - of_nat new_size / of_nat previous_size\<bar>"

section \<open>Observations on event lists\<close>

text \<open>
  A put of image data into the bucket (attempted, respectively completed) and a call of
  one of the four Rekognition analyses.
\<close>

fun image_upload_event :: "event \<Rightarrow> bool" where
  "image_upload_event (Call (PutObject b k (ImageData d)) ok) = True"
| "image_upload_event _ = False"


fun analysis_event :: "event \<Rightarrow> bool" where
  "analysis_event (Call (DetectLabels b k) ok) = True"
| "analysis_event (Call (DetectFaces b k) ok) = True"
| "analysis_event (Call (RecognizeCelebrities b k) ok) = True"
| "analysis_event (Call (SearchFacesByImage c b k) ok) = True"
| "analysis_event _ = False"

text \<open>
  The record an analysis run is expected to persist, in the words of the specification:
  the image reference followed by the result of every stage that ran, in the order in
  which the stages ran.
\<close>

fun stage_entry :: "env \<Rightarrow> call \<Rightarrow> seen" where
  "stage_entry en (DetectLabels b k) =
     (case detect_labels_r en k of None \<Rightarrow> [] | Some ls \<Rightarrow> [(''Labels'', SLabels ls)])"
| "stage_entry en (DetectFaces b k) =
     (case detect_faces_r en k of
        None \<Rightarrow> []
      | Some fs \<Rightarrow> [(''FaceDetails'', SFaceDetails fs)])"
| "stage_entry en (RecognizeCelebrities b k) =
     (case recognize_celebrities_r en k of
        None \<Rightarrow> []
      | Some cs \<Rightarrow> [(''CelebrityFaces'', SCelebrityFaces cs)])"
| "stage_entry en (SearchFacesByImage c b k) =
     (case search_faces_by_image_r en k of
        None \<Rightarrow> []
      | Some ms \<Rightarrow> [(''FaceMatches'', SFaceMatches ms)])"
| "stage_entry en _ = []"

definition accumulated_record :: "env \<Rightarrow> string \<Rightarrow> call list \<Rightarrow> seen" where
  "accumulated_record en key cs =
     (''Image'', SImage S3_BUCKET key) # concat (map (stage_entry en) cs)"



section \<open>Reasoning about programs\<close>

definition never_raises :: "error \<Rightarrow> 'a prog \<Rightarrow> bool" where
  "never_raises e m = (\<forall>w. outcome (m w) \<noteq> Inl e)"

definition returns_only :: "('a \<Rightarrow> bool) \<Rightarrow> 'a prog \<Rightarrow> bool" where
  "returns_only P m = (\<forall>w x. outcome (m w) = Inr x \<longrightarrow> P x)"

definition preserves :: "(world \<Rightarrow> 'b) \<Rightarrow> 'a prog \<Rightarrow> bool" where
  "preserves g m = (\<forall>w. g (final (m w)) = g w)"


definition maintains :: "(world \<Rightarrow> bool) \<Rightarrow> 'a prog \<Rightarrow> bool" where
  "maintains I m = (\<forall>w. I w \<longrightarrow> I (final (m w)))"

section \<open>Example inputs\<close>

definition example_env :: env where
  "example_env =
     \<lparr>capture_r = Some [255, 216, 255, 217, 0],
      strftime_r = ''20240101120000'',
      put_object_r = (\<lambda>k. Some ''{}''),
      detect_labels_r = (\<lambda>k. Some [\<lparr>Name = ''Person'', Confidence = 99\<rparr>]),
      detect_faces_r = (\<lambda>k. Some [''face'']),
      recognize_celebrities_r = (\<lambda>k. Some []),
      search_faces_by_image_r = (\<lambda>k. Some [''Alice'']),
      index_faces_r = (\<lambda>k n. Some ''{}'')\<rparr>"

definition example_world :: world where
  "example_world =
     \<lparr>uc_size = Some 4, uc_camera_enabled = Some True,
      image_buf = \<lparr>buf = [], pos = 0\<rparr>, s3 = Map.empty\<rparr>"


definition example_enable_message :: message where
  "example_enable_message =
     \<lparr>payload = Parsed (JDict [(''camera'', JStr ''enable'')]), topic = ''pyzcam/in''\<rparr>"

definition example_env_no_person :: env where
  "example_env_no_person =
     example_env\<lparr>detect_labels_r :=
       (\<lambda>k. Some [\<lparr>Name = ''person'', Confidence = 99\<rparr>, \<lparr>Name = ''Cat'', Confidence = 80\<rparr>])\<rparr>"

definition example_env_search_fails :: env where
  "example_env_search_fails = example_env\<lparr>search_faces_by_image_r := (\<lambda>k. None)\<rparr>"




section \<open>Properties\<close>

subsection \<open>The program monad\<close>

lemmas prog_simps = bnd_def ret_def raise_def lift_def print_def ext_call_def modify_def
  get_state_def get_attr_def outcome_def final_def events_def

lemma outcome_bnd:
  "outcome (bnd m f w) =
     (case outcome (m w) of Inl e \<Rightarrow> Inl e | Inr x \<Rightarrow> outcome (f x (final (m w))))"
  by (simp add: prog_simps split: prod.split sum.split)

lemma final_bnd:
  "final (bnd m f w) =
     (case outcome (m w) of Inl e \<Rightarrow> final (m w) | Inr x \<Rightarrow> final (f x (final (m w))))"
  by (simp add: prog_simps split: prod.split sum.split)



lemma returns_only_bnd: "(\<And>x. returns_only P (f x)) \<Longrightarrow> returns_only P (bnd m f)"
  by (auto simp: returns_only_def outcome_bnd split: sum.splits)

lemma returns_only_ret: "P x \<Longrightarrow> returns_only P (ret x)"
  by (simp add: returns_only_def ret_def outcome_def)

lemma never_raises_bnd:
  "never_raises e m \<Longrightarrow> (\<And>x. never_raises e (f x)) \<Longrightarrow> never_raises e (bnd m f)"
  by (auto simp: never_raises_def outcome_bnd split: sum.splits)

lemma never_raises_bnd_returns:
  "never_raises e m \<Longrightarrow> returns_only P m \<Longrightarrow> (\<And>x. P x \<Longrightarrow> never_raises e (f x))
    \<Longrightarrow> never_raises e (bnd m f)"
  by (auto simp: never_raises_def returns_only_def outcome_bnd split: sum.splits)

lemma never_raises_ret: "never_raises e (ret x)"
  and never_raises_print: "never_raises e (print t args)"
  and never_raises_modify: "never_raises e (modify g)"
  and never_raises_get_state: "never_raises e (get_state h)"
  by (simp_all add: never_raises_def prog_simps)

lemma never_raises_ext_call: "e \<noteq> ServiceError sv \<Longrightarrow> never_raises e (ext_call c sv r)"
  by (auto simp: never_raises_def prog_simps split: option.split)

lemma never_raises_get_attr: "e \<noteq> AttributeError \<Longrightarrow> never_raises e (get_attr a)"
  by (auto simp: never_raises_def prog_simps split: option.split)

lemma never_raises_lift: "r \<noteq> Inl e \<Longrightarrow> never_raises e (lift r)"
  by (simp add: never_raises_def prog_simps)

lemma never_raises_if:
  "(c \<Longrightarrow> never_raises e m) \<Longrightarrow> (\<not> c \<Longrightarrow> never_raises e m')
    \<Longrightarrow> never_raises e (if c then m else m')"
  by simp

lemmas never_raises_intros = never_raises_bnd never_raises_ret never_raises_print
  never_raises_modify never_raises_get_state never_raises_ext_call never_raises_get_attr
  never_raises_lift never_raises_if

lemma preserves_bnd:
  "preserves g m \<Longrightarrow> (\<And>x. preserves g (f x)) \<Longrightarrow> preserves g (bnd m f)"
  by (auto simp: preserves_def final_bnd split: sum.splits)

lemma preserves_ret: "preserves g (ret x)"
  and preserves_raise: "preserves g (raise e)"
  and preserves_print: "preserves g (print t args)"
  and preserves_get_state: "preserves g (get_state h)"
  and preserves_lift: "preserves g (lift r)"
  by (simp_all add: preserves_def prog_simps)

lemma preserves_ext_call: "preserves g (ext_call c sv r)"
  and preserves_get_attr: "preserves g (get_attr a)"
  by (simp_all add: preserves_def prog_simps split: option.split)

lemma preserves_modify: "(\<And>w. g (h w) = g w) \<Longrightarrow> preserves g (modify h)"
  by (simp add: preserves_def prog_simps)

lemma preserves_if:
  "(c \<Longrightarrow> preserves g m) \<Longrightarrow> (\<not> c \<Longrightarrow> preserves g m')
    \<Longrightarrow> preserves g (if c then m else m')"
  by simp

lemmas preserves_intros = preserves_bnd preserves_ret preserves_raise preserves_print
  preserves_get_state preserves_lift preserves_ext_call preserves_get_attr preserves_modify
  preserves_if

lemma outcome_tuple: "outcome (r, w, es) = r"
  and final_tuple: "final (r, w, es) = w"
  and events_tuple: "events (r, w, es) = es"
  by (simp_all add: outcome_def final_def events_def)

lemmas tuple_simps = outcome_tuple final_tuple events_tuple










lemma CHANGE_THRESHOLD_value: "CHANGE_THRESHOLD = 5764607523034235 / 1152921504606846976"
  unfolding CHANGE_THRESHOLD_def by code_simp

lemma CHANGE_THRESHOLD_pos: "0 < CHANGE_THRESHOLD"
  by (simp add: CHANGE_THRESHOLD_value)

subsection \<open>Symbolic execution of the capture cycle\<close>

lemma take_picture_eq:
  "take_picture en w =
     (case capture_r en of
        None \<Rightarrow> (Inl (ServiceError Camera), w\<lparr>image_buf := bytesio_seek (image_buf w)\<rparr>,
                 [Call Capture False])
      | Some d \<Rightarrow> (Inr (), captured d w, [Call Capture True]))"
  by (simp add: take_picture_def captured_def prog_simps split: option.split)


lemma use_camera_periodic_eq:
  assumes "capture_r en = Some dta" and "uc_size w = Some p"
  shows "use_camera False en w =
     (case size_change p (length dta) of
        Inl e \<Rightarrow> (Inl e, (captured dta w)\<lparr>uc_size := Some (length dta)\<rparr>, [Call Capture True])
      | Inr c \<Rightarrow>
          (if CHANGE_THRESHOLD < c then
             (outcome (upload_and_analyse en ((captured dta w)\<lparr>uc_size := Some (length dta)\<rparr>)),
              final (upload_and_analyse en ((captured dta w)\<lparr>uc_size := Some (length dta)\<rparr>)),
              [Call Capture True,
               Print ''size: {0} - previous: {1} - change: {2}''
                 [PNat (length dta), PNat p, PNum c]] @
              events (upload_and_analyse en ((captured dta w)\<lparr>uc_size := Some (length dta)\<rparr>)))
           else (Inr (), (captured dta w)\<lparr>uc_size := Some (length dta)\<rparr>,
                 [Call Capture True,
                  Print ''size: {0} - previous: {1} - change: {2}''
                    [PNat (length dta), PNat p, PNum c]])))"
  using assms
  by (simp add: use_camera_def trigger_condition_def upload_and_analyse_def[symmetric]
      captured_def take_picture_eq bnd_def get_attr_def modify_def lift_def print_def ret_def
      bytesio_tell_def bytesio_write_def bytesio_seek_def outcome_def final_def events_def
      split: option.split prod.split sum.split)




lemma message_received_enable:
  assumes "payload msg = Parsed (JDict d)" and "map_of d ''camera'' = Some (JStr ''enable'')"
  shows "message_received en msg w =
    (Inr (), w\<lparr>uc_size := Some 0, uc_camera_enabled := Some True\<rparr>,
     [Print ''Received a new message: '' [], Print ''{}'' [PPayload (payload msg)],
      Print ''from topic: '' [], Print ''{}'' [PStr (topic msg)],
      Print ''--------------\<newline>\<newline>'' [], Print ''Camera enabled'' []])"
  using assms
  by (simp add: message_received_def loads_def enable_camera_def prog_simps)

lemma main_loop_body_enabled:
  assumes "uc_camera_enabled w = Some True"
  shows "main_loop_body en w =
    (outcome (use_camera False en w), final (use_camera False en w),
     Call (Sleep SLEEP_TIME) True # events (use_camera False en w))"
  using assms
  by (simp add: main_loop_body_def prog_simps split: prod.split)

lemma use_camera_capture_fails:
  assumes "capture_r en = None"
  shows "use_camera once en w =
    (Inl (ServiceError Camera), w\<lparr>image_buf := bytesio_seek (image_buf w)\<rparr>, [Call Capture False])"
  using assms by (simp add: use_camera_def bnd_def[of "take_picture en"] take_picture_eq)

subsection \<open>Symbolic execution of the upload and of the analysis\<close>


lemma upload_seen_eq:
  "upload_seen en b w =
     (case put_object_r en S3_SEEN_KEY of
        None \<Rightarrow> (Inl (ServiceError S3), w,
          [Print ''Uploading file to Amazon S3...'' [], Print ''key = {}'' [PStr S3_SEEN_KEY],
           Call (PutObject S3_BUCKET S3_SEEN_KEY b) False])
      | Some response \<Rightarrow> (Inr (), w\<lparr>s3 := (s3 w)(S3_SEEN_KEY \<mapsto> b)\<rparr>,
          [Print ''Uploading file to Amazon S3...'' [], Print ''key = {}'' [PStr S3_SEEN_KEY],
           Call (PutObject S3_BUCKET S3_SEEN_KEY b) True, Print ''{}'' [PStr response]]))"
  by (simp add: upload_seen_def prog_simps split: option.split)

lemmas analyse_image_unfold = analyse_image_def upload_seen_eq bnd_def ret_def print_def
  ext_call_def Let_def outcome_def final_def events_def accumulated_record_def

lemma str_contains_iff: "str_contains n h \<longleftrightarrow> (\<exists>pre suf. h = pre @ n @ suf)"
proof (induction h)
  case Nil
  then show ?case by auto
next
  case (Cons c cs)
  have "take (length n) (c # cs) = n \<longleftrightarrow> (\<exists>suf. c # cs = n @ suf)"
    by (metis append_eq_conv_conj append_take_drop_id)
  moreover have "(\<exists>pre suf. c # cs = pre @ n @ suf) \<longleftrightarrow>
      (\<exists>suf. c # cs = n @ suf) \<or> (\<exists>pre suf. cs = pre @ n @ suf)"
  proof
    assume "\<exists>pre suf. c # cs = pre @ n @ suf"
    then obtain pre suf where *: "c # cs = pre @ n @ suf" by blast
    show "(\<exists>suf. c # cs = n @ suf) \<or> (\<exists>pre suf. cs = pre @ n @ suf)"
    proof (cases pre)
      case Nil
      with * show ?thesis by auto
    next
      case (Cons a pre')
      with * have "cs = pre' @ n @ suf" by simp
      then show ?thesis by blast
    qed
  next
    assume "(\<exists>suf. c # cs = n @ suf) \<or> (\<exists>pre suf. cs = pre @ n @ suf)"
    then show "\<exists>pre suf. c # cs = pre @ n @ suf"
    proof
      assume "\<exists>suf. c # cs = n @ suf"
      then show ?thesis by (metis append_Nil)
    next
      assume "\<exists>pre suf. cs = pre @ n @ suf"
      then show ?thesis by (metis append_Cons)
    qed
  qed
  ultimately show ?case using Cons.IH by simp
qed

lemma any_person_iff:
  "any_person ls \<longleftrightarrow> (\<exists>l \<in> set ls. \<exists>pre suf. Name l = pre @ ''Person'' @ suf)"
  by (simp add: any_person_def list_ex_iff str_contains_iff)

lemma analyse_image_no_person:
  assumes "detect_labels_r en key = Some labels" and "\<not> any_person labels"
  shows "analyse_image en key w =
    (case put_object_r en S3_SEEN_KEY of
       None \<Rightarrow> (Inl (ServiceError S3), w,
          [Print ''Calling Amazon Rekognition...'' [], Print ''Looking for labels...'' [],
           Call (DetectLabels S3_BUCKET key) True, Print ''{}'' [PSeen (SLabels labels)],
           Print ''Uploading file to Amazon S3...'' [], Print ''key = {}'' [PStr S3_SEEN_KEY],
           Call (PutObject S3_BUCKET S3_SEEN_KEY
              (SeenJson [(''Image'', SImage S3_BUCKET key), (''Labels'', SLabels labels)])) False])
     | Some response \<Rightarrow> (Inr (),
          w\<lparr>s3 := (s3 w)(S3_SEEN_KEY \<mapsto>
              SeenJson [(''Image'', SImage S3_BUCKET key), (''Labels'', SLabels labels)])\<rparr>,
          [Print ''Calling Amazon Rekognition...'' [], Print ''Looking for labels...'' [],
           Call (DetectLabels S3_BUCKET key) True, Print ''{}'' [PSeen (SLabels labels)],
           Print ''Uploading file to Amazon S3...'' [], Print ''key = {}'' [PStr S3_SEEN_KEY],
           Call (PutObject S3_BUCKET S3_SEEN_KEY
              (SeenJson [(''Image'', SImage S3_BUCKET key), (''Labels'', SLabels labels)])) True,
           Print ''{}'' [PStr response]]))"
  using assms
  by (simp add: analyse_image_def upload_seen_def prog_simps Let_def split: option.split)

lemma analyse_image_atomic:
  "(failed_calls (events (analyse_image en key w)) = [] \<longrightarrow>
      outcome (analyse_image en key w) = Inr () \<and>
      final (analyse_image en key w) =
        w\<lparr>s3 := (s3 w)(S3_SEEN_KEY \<mapsto>
           SeenJson (accumulated_record en key (calls (events (analyse_image en key w)))))\<rparr>) \<and>
   (failed_calls (events (analyse_image en key w)) \<noteq> [] \<longrightarrow>
      outcome (analyse_image en key w) \<noteq> Inr () \<and> final (analyse_image en key w) = w)"
proof (cases "detect_labels_r en key")
  case None
  then show ?thesis by (simp add: analyse_image_unfold)
next
  case labels: (Some ls)
  show ?thesis
  proof (cases "any_person ls")
    case False
    with labels show ?thesis
      by (cases "put_object_r en S3_SEEN_KEY") (simp_all add: analyse_image_unfold)
  next
    case person: True
    show ?thesis
    proof (cases "detect_faces_r en key")
      case None
      with labels person show ?thesis by (simp add: analyse_image_unfold)
    next
      case faces: (Some fs)
      show ?thesis
      proof (cases "fs = []")
        case True
        with labels person faces show ?thesis
          by (cases "put_object_r en S3_SEEN_KEY") (simp_all add: analyse_image_unfold)
      next
        case nonempty: False
        show ?thesis
        proof (cases "recognize_celebrities_r en key")
          case None
          with labels person faces nonempty show ?thesis by (simp add: analyse_image_unfold)
        next
          case celebs: (Some cs)
          show ?thesis
          proof (cases "search_faces_by_image_r en key")
            case None
            with labels person faces nonempty celebs show ?thesis
              by (simp add: analyse_image_unfold)
          next
            case (Some ms)
            with labels person faces nonempty celebs show ?thesis
              by (cases "put_object_r en S3_SEEN_KEY") (simp_all add: analyse_image_unfold)
          qed
        qed
      qed
    qed
  qed
qed













subsection \<open>Rounding to the nearest float\<close>

lemma pow2_power_int: "pow2 k = power_int 2 k"
  by (simp add: pow2_def power_int_def inverse_eq_divide power_one_over)

lemma pow2_pos: "0 < pow2 k"
  by (simp add: pow2_power_int)

lemma pow2_add: "pow2 (a + b) = pow2 a * pow2 b"
  by (simp add: pow2_power_int power_int_add)

lemma pow2_mono: "a \<le> b \<Longrightarrow> pow2 a \<le> pow2 b"
  by (simp add: pow2_power_int power_int_increasing)

lemma pow2_nat: "pow2 (int n) = 2 ^ n"
  by (simp add: pow2_def)

lemma pow2_neg: "pow2 (- int n) = 1 / 2 ^ n"
  by (simp add: pow2_power_int power_int_minus inverse_eq_divide)

lemma pow2_max: "pow2 (max a b) \<le> pow2 a + pow2 b"
  using pow2_pos[of a] pow2_pos[of b] by (simp add: max_def)

lemma pow2_half: "pow2 k / 2 = pow2 (k - 1)"
  using pow2_add[of "k - 1" 1] by (simp add: pow2_def)

lemma ilog2_lower:
  assumes "0 < x"
  shows "pow2 (ilog2 x) \<le> x"
proof -
  obtain a b where q: "quotient_of x = (a, b)" by (cases "quotient_of x")
  then have b: "0 < b" and x: "x = of_int a / of_int b"
    by (simp_all add: quotient_of_denom_pos quotient_of_div)
  with assms have a: "0 < a"
    by (simp add: zero_less_divide_iff)
  let ?k = "bitlen a - bitlen b"
  show ?thesis
  proof (cases "pow2 ?k \<le> x")
    case True
    then show ?thesis by (simp add: ilog2_def q)
  next
    case False
    have la: "2 ^ nat (bitlen a - 1) \<le> a" and lb: "b \<le> 2 ^ nat (bitlen b)"
      using bitlen_bounds[OF a] bitlen_bounds[OF b] by simp_all
    have ba: "1 \<le> bitlen a" and bb: "1 \<le> bitlen b"
      using a b bitlen_eq_zero_iff[of a] bitlen_eq_zero_iff[of b] bitlen_nonneg[of a]
        bitlen_nonneg[of b] by linarith+
    have "(of_int (2 ^ nat (bitlen a - 1)) :: rat) \<le> of_int a"
      using la by (simp only: of_int_le_iff)
    then have A: "pow2 (bitlen a - 1) \<le> of_int a"
      using ba by (simp add: pow2_def)
    have "(of_int b :: rat) \<le> of_int (2 ^ nat (bitlen b))"
      using lb by (simp only: of_int_le_iff)
    then have B: "(of_int b :: rat) \<le> pow2 (bitlen b)"
      using bb by (simp add: pow2_def)
    have "pow2 (?k - 1) * of_int b \<le> pow2 (?k - 1) * pow2 (bitlen b)"
      using B pow2_pos[of "?k - 1"] by (simp add: mult_left_mono)
    also have "\<dots> = pow2 (bitlen a - 1)"
      by (simp add: pow2_add[symmetric])
    also have "\<dots> \<le> of_int a" by (rule A)
    finally have "pow2 (?k - 1) \<le> x"
      using b by (simp add: x pos_le_divide_eq)
    with False show ?thesis by (simp add: ilog2_def q)
  qed
qed

lemma nearest_of_fraction:
  fixes r :: rat
  assumes "0 \<le> r" and "r < 1"
  shows "\<bar>of_int (if r < 1 / 2 then f else if 1 / 2 < r then f + 1
            else if even f then f else f + 1) - (of_int f + r)\<bar> \<le> 1 / 2"
  using assms by (auto simp: abs_if)

lemma round_half_even_error: "\<bar>of_int (round_half_even y) - y\<bar> \<le> 1 / 2"
proof -
  have eq: "round_half_even y =
      (if frac y < 1 / 2 then \<lfloor>y\<rfloor> else if 1 / 2 < frac y then \<lfloor>y\<rfloor> + 1
       else if even \<lfloor>y\<rfloor> then \<lfloor>y\<rfloor> else \<lfloor>y\<rfloor> + 1)"
    unfolding round_half_even_def Let_def frac_def ..
  have "0 \<le> frac y" and "frac y < 1"
    by (simp_all add: frac_lt_1)
  from nearest_of_fraction[OF this, of "\<lfloor>y\<rfloor>"]
  have "\<bar>of_int (round_half_even y) - (of_int \<lfloor>y\<rfloor> + frac y)\<bar> \<le> 1 / 2"
    unfolding eq .
  moreover have "of_int \<lfloor>y\<rfloor> + frac y = y"
    by (simp add: frac_def)
  ultimately show ?thesis by (simp only:)
qed

lemma round_half_even_nonneg: "0 \<le> y \<Longrightarrow> 0 \<le> round_half_even y"
  by (auto simp: round_half_even_def Let_def)

lemma quantum_bound:
  assumes "x \<noteq> 0"
  shows "pow2 (quantum x) \<le> \<bar>x\<bar> * pow2 (- 52) + pow2 (- 1074)"
proof -
  have "pow2 (ilog2 \<bar>x\<bar>) \<le> \<bar>x\<bar>"
    using assms by (simp add: ilog2_lower)
  moreover have "pow2 (ilog2 \<bar>x\<bar> - 52) = pow2 (ilog2 \<bar>x\<bar>) * pow2 (- 52)"
    using pow2_add[of "ilog2 \<bar>x\<bar>" "- 52"] by simp
  ultimately have "pow2 (ilog2 \<bar>x\<bar> - 52) \<le> \<bar>x\<bar> * pow2 (- 52)"
    using pow2_pos[of "- 52"] by (simp add: mult_right_mono)
  then show ?thesis
    unfolding quantum_def
    using pow2_max[of "ilog2 \<bar>x\<bar> - 52" "- 1074"] by linarith
qed

lemma round_float_error_quantum: "\<bar>round_float x - x\<bar> \<le> pow2 (quantum x) / 2"
proof (cases "x = 0")
  case True
  then show ?thesis using pow2_pos[of "quantum 0"] by (simp add: round_float_def)
next
  case False
  let ?q = "pow2 (quantum x)"
  let ?m = "of_int (round_half_even (\<bar>x\<bar> / ?q)) :: rat"
  have q: "0 < ?q" by (rule pow2_pos)
  have "\<bar>?m - \<bar>x\<bar> / ?q\<bar> \<le> 1 / 2" by (rule round_half_even_error)
  then have "\<bar>?m - \<bar>x\<bar> / ?q\<bar> * ?q \<le> 1 / 2 * ?q"
    using q by (simp add: mult_right_mono)
  moreover have "\<bar>?m - \<bar>x\<bar> / ?q\<bar> * ?q = \<bar>?m * ?q - \<bar>x\<bar>\<bar>"
  proof -
    have "\<bar>?m - \<bar>x\<bar> / ?q\<bar> * ?q = \<bar>(?m - \<bar>x\<bar> / ?q) * ?q\<bar>"
      using q by (simp add: abs_mult)
    also have "(?m - \<bar>x\<bar> / ?q) * ?q = ?m * ?q - \<bar>x\<bar>"
      using q by (simp add: algebra_simps)
    finally show ?thesis .
  qed
  ultimately have *: "\<bar>?m * ?q - \<bar>x\<bar>\<bar> \<le> ?q / 2" by simp
  have "\<bar>round_float x - x\<bar> = \<bar>?m * ?q - \<bar>x\<bar>\<bar>"
  proof (cases "0 < x")
    case True
    then show ?thesis by (simp add: round_float_def)
  next
    case neg: False
    with False have "x < 0" by simp
    then have "round_float x - x = - (?m * ?q - \<bar>x\<bar>)"
      by (simp add: round_float_def)
    then show ?thesis by (simp only: abs_minus_cancel)
  qed
  with * show ?thesis by simp
qed

lemma round_float_error:
  "\<bar>round_float x - x\<bar> \<le> \<bar>x\<bar> * unit_roundoff + half_min_quantum"
proof (cases "x = 0")
  case True
  then show ?thesis
    using pow2_pos[of "- 1075"] by (simp add: round_float_def half_min_quantum_def)
next
  case False
  have "\<bar>round_float x - x\<bar> \<le> pow2 (quantum x) / 2"
    by (rule round_float_error_quantum)
  also have "\<dots> \<le> (\<bar>x\<bar> * pow2 (- 52) + pow2 (- 1074)) / 2"
    using quantum_bound[OF False] by simp
  also have "\<dots> = \<bar>x\<bar> * (pow2 (- 52) / 2) + pow2 (- 1074) / 2"
    by (simp add: add_divide_distrib)
  also have "\<dots> = \<bar>x\<bar> * unit_roundoff + half_min_quantum"
    unfolding pow2_half unit_roundoff_def half_min_quantum_def by simp
  finally show ?thesis .
qed

lemma round_float_nonneg: "0 \<le> x \<Longrightarrow> 0 \<le> round_float x"
  using pow2_pos[of "quantum x"] round_half_even_nonneg[of "\<bar>x\<bar> / pow2 (quantum x)"]
  by (auto simp: round_float_def sgn_if intro!: mult_nonneg_nonneg)

lemma unit_roundoff_bounds: "0 < unit_roundoff" "unit_roundoff \<le> 1"
  using pow2_pos[of "- 53"] pow2_mono[of "- 53" 0] by (simp_all add: unit_roundoff_def pow2_def)

lemma half_min_quantum_pos: "0 < half_min_quantum"
  using pow2_pos[of "- 1075"] by (simp add: half_min_quantum_def)

lemma size_change_cases:
  assumes "size_change p c = Inr r" and "0 < p"
  shows "r = \<bar>round_float (1 - round_float (of_nat c / of_nat p))\<bar>"
  using assms
  by (auto simp: size_change_def int_truediv_def float_sub_def Let_def split: if_splits)

lemma two_roundings_error:
  fixes x :: rat
  assumes "0 \<le> x"
  shows "\<bar>\<bar>round_float (1 - round_float x)\<bar> - \<bar>1 - x\<bar>\<bar>
           \<le> (1 + 3 * x) * unit_roundoff + 3 * half_min_quantum"
proof -
  let ?u = unit_roundoff and ?h = half_min_quantum
  let ?fx = "round_float x" and ?y = "1 - round_float x"
  have u: "0 < ?u" "?u \<le> 1" by (rule unit_roundoff_bounds)+
  have h: "0 < ?h" by (rule half_min_quantum_pos)
  have e1: "\<bar>?fx - x\<bar> \<le> x * ?u + ?h"
    using round_float_error[of x] assms by simp
  have e2: "\<bar>round_float ?y - ?y\<bar> \<le> \<bar>?y\<bar> * ?u + ?h"
    by (rule round_float_error)
  have y: "\<bar>?y\<bar> \<le> 1 + x + x * ?u + ?h"
    using e1 assms by linarith
  have "\<bar>?y\<bar> * ?u \<le> (1 + x + x * ?u + ?h) * ?u"
    using y u by (simp add: mult_right_mono)
  also have "\<dots> = ?u + x * ?u + (x * ?u) * ?u + ?h * ?u"
    by (simp add: algebra_simps)
  also have "\<dots> \<le> ?u + x * ?u + x * ?u + ?h"
  proof -
    have "(x * ?u) * ?u \<le> (x * ?u) * 1"
      using u assms by (intro mult_left_mono) simp_all
    then have a: "(x * ?u) * ?u \<le> x * ?u" by (simp only: mult_1_right)
    have "?h * ?u \<le> ?h * 1"
      using u h by (intro mult_left_mono) simp_all
    then have b: "?h * ?u \<le> ?h" by (simp only: mult_1_right)
    from a b show ?thesis by linarith
  qed
  finally have yu: "\<bar>?y\<bar> * ?u \<le> ?u + 2 * (x * ?u) + ?h" by linarith
  have "\<bar>\<bar>round_float ?y\<bar> - \<bar>1 - x\<bar>\<bar> \<le> \<bar>round_float ?y - (1 - x)\<bar>"
    by (rule abs_triangle_ineq3)
  also have "\<dots> \<le> \<bar>round_float ?y - ?y\<bar> + \<bar>?fx - x\<bar>"
    by linarith
  also have "\<dots> \<le> (\<bar>?y\<bar> * ?u + ?h) + (x * ?u + ?h)"
    using e1 e2 by linarith
  also have "\<dots> \<le> (?u + 2 * (x * ?u) + ?h + ?h) + (x * ?u + ?h)"
    using yu by linarith
  also have "\<dots> = (1 + 3 * x) * ?u + 3 * ?h"
    by (simp add: algebra_simps)
  finally show ?thesis .
qed

lemma size_change_returns:
  assumes "0 < p" and "of_nat c / of_nat p \<le> (2 :: rat) ^ 1023"
  shows "size_change p c = Inr \<bar>round_float (1 - round_float (of_nat c / of_nat p))\<bar>"
proof -
  let ?x = "of_nat c / of_nat p :: rat"
  have x: "0 \<le> ?x" by simp
  have half: "unit_roundoff \<le> 1 / 2"
    using pow2_mono[of "- 53" "- 1"] by (simp add: unit_roundoff_def pow2_def)
  have tiny: "half_min_quantum \<le> 1"
    using pow2_mono[of "- 1075" 0] by (simp add: half_min_quantum_def pow2_def)
  have "?x * unit_roundoff \<le> ?x * (1 / 2)"
    using x half by (intro mult_left_mono) simp_all
  then have "?x * unit_roundoff \<le> ?x / 2" by simp
  moreover have "\<bar>round_float ?x - ?x\<bar> \<le> ?x * unit_roundoff + half_min_quantum"
    using round_float_error[of ?x] x by simp
  ultimately have r: "round_float ?x \<le> ?x + ?x / 2 + 1"
    using tiny by linarith
  define B :: rat where "B = 2 ^ 1023"
  have "(2 :: rat) ^ 2 \<le> 2 ^ 1023"
    by (rule power_increasing) simp_all
  then have B: "4 \<le> B" by (simp add: B_def power2_eq_square del: power_numeral)
  have "(2 :: rat) ^ Suc 1023 = 2 * B"
    unfolding B_def by (rule power_Suc)
  moreover have "Suc 1023 = 1024" by simp
  ultimately have B2: "(2 :: rat) ^ 1024 = 2 * B" by (simp only:)
  have "?x \<le> B" using assms(2) by (simp only: B_def)
  have "v < 2 * B" if "v \<le> z + z / 2 + 1" and "4 \<le> B" and "z \<le> B" for v z :: rat
    using that by linarith
  from this[OF r B \<open>?x \<le> B\<close>] have "round_float ?x < 2 * B" .
  then have "\<not> 2 ^ 1024 \<le> round_float ?x"
    by (simp only: B2 not_le)
  with assms(1) show ?thesis
    by (simp add: size_change_def int_truediv_def float_sub_def Let_def)
qed

lemma size_change_nonneg: "size_change p c = Inr r \<Longrightarrow> 0 \<le> r"
  by (auto simp: size_change_def split: if_splits sum.splits)

lemma size_change_no_zero_division: "size_change p c \<noteq> Inl ZeroDivisionError"
  by (auto simp: size_change_def int_truediv_def Let_def split: if_splits sum.splits)

lemma round_float_199_200: "round_float (199 / 200) = 8962163258467287 / 9007199254740992"
  by code_simp

lemma round_float_1_minus:
  "round_float (1 - 8962163258467287 / 9007199254740992) = 45035996273705 / 9007199254740992"
  by code_simp

lemma size_change_1000_995: "size_change 1000 995 = Inr (45035996273705 / 9007199254740992)"
proof -
  have "(of_nat 995 / of_nat 1000 :: rat) = 199 / 200" by simp
  moreover have "(of_nat 995 / of_nat 1000 :: rat) \<le> 2 ^ 1023"
  proof -
    have "(of_nat 995 / of_nat 1000 :: rat) \<le> 2 ^ 0" by simp
    also have "\<dots> \<le> 2 ^ 1023" by (rule power_increasing) simp_all
    finally show ?thesis .
  qed
  ultimately show ?thesis
    using size_change_returns[of 1000 995]
    by (simp only: round_float_199_200 round_float_1_minus) simp
qed

lemma ratio_below_overflow:
  assumes "c \<le> 2 ^ 1023 * p"
  shows "(of_nat c / of_nat p :: rat) \<le> 2 ^ 1023"
proof (cases "p = 0")
  case True
  then show ?thesis by simp
next
  case False
  have "(of_nat c :: rat) \<le> of_nat (2 ^ 1023 * p)"
    using assms by (simp only: of_nat_le_iff)
  then have "(of_nat c :: rat) \<le> 2 ^ 1023 * of_nat p"
    by (simp only: of_nat_mult of_nat_power of_nat_numeral)
  with False show ?thesis
    by (simp only: pos_divide_le_eq of_nat_0_less_iff neq0_conv)
qed








subsection \<open>No float lies between 0.005 and the threshold\<close>










subsection \<open>The trigger of upload and analysis\<close>



subsection \<open>The change ratio\<close>

text \<open>
  C2, as stated, fails: the ratio is computed in floating point, so it is not the number
  \<open>|1 - currentSize / previousSize|\<close>.  For the sizes 1000 and 995 the program computes
  \<open>0.0050000000000000044\<close>, which is above the threshold, while the exact ratio
  \<open>0.005\<close> is not.
\<close>

theorem size_change_differs_from_exact_ratio_counterexample:
  "size_change 1000 995 = Inr (45035996273705 / 9007199254740992) \<and>
   exact_ratio 1000 995 = 1 / 200 \<and>
   size_change 1000 995 \<noteq> Inr (exact_ratio 1000 995) \<and>
   CHANGE_THRESHOLD < 45035996273705 / 9007199254740992 \<and>
   \<not> 5 / 1000 < exact_ratio 1000 995"
  unfolding size_change_1000_995 by (simp add: exact_ratio_def CHANGE_THRESHOLD_value)

text \<open>
  C2, amended.  The change metric is a function of the two sizes alone.  For
  \<open>previousSize = 0\<close> it is 0, it never divides by zero and it is never negative.  For
  \<open>previousSize > 0\<close> it is \<open>|1 - currentSize / previousSize|\<close> evaluated in binary64
  arithmetic: the quotient is rounded to the nearest float, and so is the
  difference (a result is returned whenever the quotient is at most \<open>2 ^ 1023\<close>);
  it differs from the exact ratio by at most
  \<open>(1 + 3 * currentSize / previousSize) * 2 ^ - 53 + 3 * 2 ^ - 1075\<close>.
\<close>

theorem size_change_is_rounded_ratio:
  "size_change 0 c = Inr 0 \<and>
   size_change p c \<noteq> Inl ZeroDivisionError \<and>
   (\<forall>r. size_change p c = Inr r \<longrightarrow> 0 \<le> r) \<and>
   (0 < p \<and> of_nat c / of_nat p \<le> (2 :: rat) ^ 1023 \<longrightarrow>
      size_change p c = Inr \<bar>float_sub 1 (round_float (of_nat c / of_nat p))\<bar>) \<and>
   (\<forall>r. 0 < p \<and> size_change p c = Inr r \<longrightarrow>
      \<bar>r - exact_ratio p c\<bar>
        \<le> (1 + 3 * (of_nat c / of_nat p)) * unit_roundoff + 3 * half_min_quantum)"
proof (intro conjI allI impI)
  show "size_change 0 c = Inr 0" by (simp add: size_change_def)
  show "size_change p c \<noteq> Inl ZeroDivisionError" by (rule size_change_no_zero_division)
  show "0 \<le> r" if "size_change p c = Inr r" for r
    using that by (rule size_change_nonneg)
  show "size_change p c = Inr \<bar>float_sub 1 (round_float (of_nat c / of_nat p))\<bar>"
    if "0 < p \<and> of_nat c / of_nat p \<le> (2 :: rat) ^ 1023"
    using that size_change_returns[of p c] by (simp add: float_sub_def)
  show "\<bar>r - exact_ratio p c\<bar>
        \<le> (1 + 3 * (of_nat c / of_nat p)) * unit_roundoff + 3 * half_min_quantum"
    if "0 < p \<and> size_change p c = Inr r" for r
  proof -
    from that have "r = \<bar>round_float (1 - round_float (of_nat c / of_nat p))\<bar>"
      by (simp add: size_change_cases)
    then show ?thesis
      unfolding exact_ratio_def
      using two_roundings_error[of "of_nat c / of_nat p"] by simp
  qed
qed

theorem size_change_is_rounded_ratio_witness:
  "size_change 0 995 = Inr 0 \<and>
   size_change 1000 995 = Inr (45035996273705 / 9007199254740992) \<and>
   \<bar>45035996273705 / 9007199254740992 - exact_ratio 1000 995\<bar>
     \<le> (1 + 3 * (of_nat 995 / of_nat 1000)) * unit_roundoff + 3 * half_min_quantum"
proof -
  have pos: "(0 :: nat) < 1000" by simp
  from size_change_is_rounded_ratio[of 995 1000] pos size_change_1000_995
  show ?thesis by blast
qed

subsection \<open>Cascade gating on the label Person\<close>

text \<open>
  C3.  When label detection returns and no label name contains the substring
  \<open>Person\<close> (case-sensitively), the only external calls of the analysis are the label
  detection and the put of the record, no face detection, celebrity recognition or
  face search is called, and the record that is put (and stored when the put returns)
  has exactly the two entries \<open>Image\<close> and \<open>Labels\<close>.
\<close>

theorem no_person_skips_face_stages:
  assumes "detect_labels_r en key = Some labels"
    and "\<forall>l \<in> set labels. \<not> (\<exists>pre suf. Name l = pre @ ''Person'' @ suf)"
  shows "calls (events (analyse_image en key w)) =
           [DetectLabels S3_BUCKET key,
            PutObject S3_BUCKET S3_SEEN_KEY
              (SeenJson [(''Image'', SImage S3_BUCKET key), (''Labels'', SLabels labels)])] \<and>
         (put_object_r en S3_SEEN_KEY \<noteq> None \<longrightarrow>
            s3 (final (analyse_image en key w)) S3_SEEN_KEY =
              Some (SeenJson [(''Image'', SImage S3_BUCKET key), (''Labels'', SLabels labels)]))"
proof -
  have "\<not> any_person labels"
    using assms(2) by (simp add: any_person_iff)
  from analyse_image_no_person[OF assms(1) this, of w] show ?thesis
    by (cases "put_object_r en S3_SEEN_KEY") (simp_all add: tuple_simps)
qed

theorem no_person_skips_face_stages_witness:
  "detect_labels_r example_env_no_person ''k'' =
     Some [\<lparr>Name = ''person'', Confidence = 99\<rparr>, \<lparr>Name = ''Cat'', Confidence = 80\<rparr>] \<and>
   \<not> any_person [\<lparr>Name = ''person'', Confidence = 99\<rparr>, \<lparr>Name = ''Cat'', Confidence = 80\<rparr>] \<and>
   calls (events (analyse_image example_env_no_person ''k'' example_world)) =
     [DetectLabels S3_BUCKET ''k'',
      PutObject S3_BUCKET S3_SEEN_KEY
        (SeenJson [(''Image'', SImage S3_BUCKET ''k''),
                   (''Labels'', SLabels [\<lparr>Name = ''person'', Confidence = 99\<rparr>,
                                         \<lparr>Name = ''Cat'', Confidence = 80\<rparr>])])]"
proof -
  have labels: "detect_labels_r example_env_no_person ''k'' =
     Some [\<lparr>Name = ''person'', Confidence = 99\<rparr>, \<lparr>Name = ''Cat'', Confidence = 80\<rparr>]"
    by (simp add: example_env_no_person_def example_env_def)
  have nobody: "\<not> any_person [\<lparr>Name = ''person'', Confidence = 99\<rparr>, \<lparr>Name = ''Cat'', Confidence = 80\<rparr>]"
    by (simp add: any_person_def)
  then have none: "\<forall>l \<in> set [\<lparr>Name = ''person'', Confidence = 99\<rparr>, \<lparr>Name = ''Cat'', Confidence = 80\<rparr>].
      \<not> (\<exists>pre suf. Name l = pre @ ''Person'' @ suf)"
    unfolding any_person_iff by blast
  from no_person_skips_face_stages[OF labels none, of example_world] labels nobody
  show ?thesis by blast
qed

subsection \<open>All-or-nothing persistence of the record\<close>

text \<open>
  C4.  If every external call made by an analysis run returns, the run ends normally
  and its only effect on the state is that the key \<open>S3_SEEN_KEY\<close> of the bucket holds
  the accumulated record: the image reference and the results of exactly the stages that
  ran.  If some call made by the run raises, the run ends in an exception and leaves
  the state, in particular the bucket, as it was.
\<close>

theorem persistence_is_all_or_nothing:
  "(failed_calls (events (analyse_image en key w)) = [] \<longrightarrow>
      outcome (analyse_image en key w) = Inr () \<and>
      final (analyse_image en key w) =
        w\<lparr>s3 := (s3 w)(S3_SEEN_KEY \<mapsto>
           SeenJson (accumulated_record en key (calls (events (analyse_image en key w)))))\<rparr>) \<and>
   (failed_calls (events (analyse_image en key w)) \<noteq> [] \<longrightarrow>
      outcome (analyse_image en key w) \<noteq> Inr () \<and> final (analyse_image en key w) = w)"
  by (rule analyse_image_atomic)

theorem persistence_is_all_or_nothing_witness:
  "failed_calls (events (analyse_image example_env ''k'' example_world)) = [] \<and>
   s3 (final (analyse_image example_env ''k'' example_world)) S3_SEEN_KEY =
     Some (SeenJson [(''Image'', SImage S3_BUCKET ''k''),
                     (''Labels'', SLabels [\<lparr>Name = ''Person'', Confidence = 99\<rparr>]),
                     (''FaceDetails'', SFaceDetails [''face'']),
                     (''CelebrityFaces'', SCelebrityFaces []),
                     (''FaceMatches'', SFaceMatches [''Alice''])]) \<and>
   failed_calls (events (analyse_image example_env_search_fails ''k'' example_world)) \<noteq> [] \<and>
   final (analyse_image example_env_search_fails ''k'' example_world) = example_world"
proof -
  have ok: "failed_calls (events (analyse_image example_env ''k'' example_world)) = []"
    and cs: "calls (events (analyse_image example_env ''k'' example_world)) =
      [DetectLabels S3_BUCKET ''k'', DetectFaces S3_BUCKET ''k'',
       RecognizeCelebrities S3_BUCKET ''k'',
       SearchFacesByImage REKOGNITION_COLLECTION_ID S3_BUCKET ''k'',
       PutObject S3_BUCKET S3_SEEN_KEY
         (SeenJson [(''Image'', SImage S3_BUCKET ''k''),
                     (''Labels'', SLabels [\<lparr>Name = ''Person'', Confidence = 99\<rparr>]),
                     (''FaceDetails'', SFaceDetails [''face'']),
                     (''CelebrityFaces'', SCelebrityFaces []),
                     (''FaceMatches'', SFaceMatches [''Alice''])])]"
    by (simp_all add: analyse_image_unfold example_env_def any_person_def)
  have bad: "failed_calls (events (analyse_image example_env_search_fails ''k'' example_world)) \<noteq> []"
    by (simp add: analyse_image_unfold example_env_search_fails_def example_env_def any_person_def)
  from persistence_is_all_or_nothing[of example_env "''k''" example_world] ok
  have "s3 (final (analyse_image example_env ''k'' example_world)) S3_SEEN_KEY =
     Some (SeenJson (accumulated_record example_env ''k''
        (calls (events (analyse_image example_env ''k'' example_world)))))"
    by simp
  then have "s3 (final (analyse_image example_env ''k'' example_world)) S3_SEEN_KEY =
     Some (SeenJson [(''Image'', SImage S3_BUCKET ''k''),
                     (''Labels'', SLabels [\<lparr>Name = ''Person'', Confidence = 99\<rparr>]),
                     (''FaceDetails'', SFaceDetails [''face'']),
                     (''CelebrityFaces'', SCelebrityFaces []),
                     (''FaceMatches'', SFaceMatches [''Alice''])])"
    unfolding cs by (simp add: accumulated_record_def example_env_def)
  with ok bad persistence_is_all_or_nothing[of example_env_search_fails "''k''" example_world]
  show ?thesis by blast
qed

subsection \<open>Unrecognised commands\<close>




subsection \<open>The first periodic capture after enabling\<close>

lemma size_change_zero_baseline: "size_change 0 n = Inr 0"
  by (simp add: size_change_def)

lemma first_cycle_with_zero_baseline:
  assumes "uc_size w = Some 0"
  shows "events (use_camera False en w) =
           (case capture_r en of
              None \<Rightarrow> [Call Capture False]
            | Some dta \<Rightarrow> [Call Capture True,
                 Print ''size: {0} - previous: {1} - change: {2}'' [PNat (length dta), PNat 0, PNum 0]])"
    and "s3 (final (use_camera False en w)) = s3 w"
    and "outcome (use_camera False en w) =
           (case capture_r en of None \<Rightarrow> Inl (ServiceError Camera) | Some dta \<Rightarrow> Inr ())"
    and "uc_size (final (use_camera False en w)) =
           (case capture_r en of None \<Rightarrow> Some 0 | Some dta \<Rightarrow> Some (length dta))"
proof -
  have none: "use_camera False en w =
      (Inl (ServiceError Camera), w\<lparr>image_buf := bytesio_seek (image_buf w)\<rparr>, [Call Capture False])"
    if "capture_r en = None"
    using that by (rule use_camera_capture_fails)
  have some: "use_camera False en w =
      (Inr (), (captured dta w)\<lparr>uc_size := Some (length dta)\<rparr>,
       [Call Capture True,
        Print ''size: {0} - previous: {1} - change: {2}'' [PNat (length dta), PNat 0, PNum 0]])"
    if "capture_r en = Some dta" for dta
    unfolding use_camera_periodic_eq[OF that assms]
    using CHANGE_THRESHOLD_pos by (simp add: size_change_zero_baseline)
  show "events (use_camera False en w) =
           (case capture_r en of
              None \<Rightarrow> [Call Capture False]
            | Some dta \<Rightarrow> [Call Capture True,
                 Print ''size: {0} - previous: {1} - change: {2}'' [PNat (length dta), PNat 0, PNum 0]])"
    using none some by (cases "capture_r en") (simp_all add: tuple_simps)
  show "s3 (final (use_camera False en w)) = s3 w"
    using none some by (cases "capture_r en") (simp_all add: tuple_simps captured_def)
  show "outcome (use_camera False en w) =
           (case capture_r en of None \<Rightarrow> Inl (ServiceError Camera) | Some dta \<Rightarrow> Inr ())"
    using none some by (cases "capture_r en") (simp_all add: tuple_simps)
  show "uc_size (final (use_camera False en w)) =
           (case capture_r en of None \<Rightarrow> Some 0 | Some dta \<Rightarrow> Some (length dta))"
    using none some assms by (cases "capture_r en") (simp_all add: tuple_simps)
qed

text \<open>
  C6.  The command \<open>{"camera": "enable"}\<close> sets the remembered size to 0 and the
  enabled flag; the ratio computed from a remembered size 0 is 0 for every new size; and
  the next iteration of the poll loop takes a picture but makes no put of an image and no
  analysis call, and leaves the bucket as it was, whatever the capture returns.
\<close>

theorem first_capture_after_enable_never_triggers:
  assumes "payload msg = Parsed (JDict d)" and "map_of d ''camera'' = Some (JStr ''enable'')"
  shows "uc_size (final (message_received en0 msg w)) = Some 0 \<and>
         uc_camera_enabled (final (message_received en0 msg w)) = Some True \<and>
         size_change 0 n = Inr 0 \<and>
         calls (events (main_loop_body en (final (message_received en0 msg w)))) =
           [Sleep SLEEP_TIME, Capture] \<and>
         \<not> list_ex image_upload_event (events (main_loop_body en (final (message_received en0 msg w)))) \<and>
         \<not> list_ex analysis_event (events (main_loop_body en (final (message_received en0 msg w)))) \<and>
         s3 (final (main_loop_body en (final (message_received en0 msg w)))) = s3 w"
proof -
  let ?w1 = "w\<lparr>uc_size := Some 0, uc_camera_enabled := Some True\<rparr>"
  have w1: "final (message_received en0 msg w) = ?w1"
    by (simp add: message_received_enable[OF assms] tuple_simps)
  have tick: "main_loop_body en ?w1 =
    (outcome (use_camera False en ?w1), final (use_camera False en ?w1),
     Call (Sleep SLEEP_TIME) True # events (use_camera False en ?w1))"
    by (rule main_loop_body_enabled) simp
  have zero: "uc_size ?w1 = Some 0" by simp
  show ?thesis
    unfolding w1 tick tuple_simps
    by (cases "capture_r en")
       (simp_all add: first_cycle_with_zero_baseline[OF zero] size_change_zero_baseline)
qed

theorem first_capture_after_enable_never_triggers_witness:
  "payload example_enable_message = Parsed (JDict [(''camera'', JStr ''enable'')]) \<and>
   map_of [(''camera'', JStr ''enable'')] ''camera'' = Some (JStr ''enable'') \<and>
   calls (events (main_loop_body example_env
      (final (message_received example_env example_enable_message example_world)))) =
     [Sleep SLEEP_TIME, Capture]"
  using first_capture_after_enable_never_triggers[of example_enable_message
      "[(''camera'', JStr ''enable'')]" example_env example_world 5 example_env]
  by (simp add: example_enable_message_def)

subsection \<open>Enrollment under the normalised name\<close>








subsection \<open>What a capture cycle leaves unchanged\<close>

lemma camera_state_take_picture: "preserves camera_state (take_picture en)"
  unfolding take_picture_def by (intro preserves_intros) (simp_all add: camera_state_def)

lemma camera_state_upload_image: "preserves camera_state (upload_image_and_get_key en)"
  unfolding upload_image_and_get_key_def Let_def
  by (intro preserves_intros) (simp_all add: camera_state_def)

lemma camera_state_upload_seen: "preserves camera_state (upload_seen en b)"
  unfolding upload_seen_def by (intro preserves_intros) (simp_all add: camera_state_def)

lemma camera_state_analyse_image: "preserves camera_state (analyse_image en key)"
  unfolding analyse_image_def Let_def
  by (intro preserves_intros camera_state_upload_seen)






subsection \<open>The camera state at start\<close>

lemma maintains_bnd:
  "maintains I m \<Longrightarrow> (\<And>x. maintains I (f x)) \<Longrightarrow> maintains I (bnd m f)"
  by (auto simp: maintains_def final_bnd split: sum.splits)

lemma maintains_ret: "maintains I (ret x)"
  and maintains_raise: "maintains I (raise e)"
  and maintains_print: "maintains I (print t args)"
  and maintains_get_state: "maintains I (get_state h)"
  and maintains_lift: "maintains I (lift r)"
  by (simp_all add: maintains_def prog_simps)

lemma maintains_ext_call: "maintains I (ext_call c sv r)"
  and maintains_get_attr: "maintains I (get_attr a)"
  by (simp_all add: maintains_def prog_simps split: option.split)

lemma maintains_modify: "(\<And>w. I w \<Longrightarrow> I (h w)) \<Longrightarrow> maintains I (modify h)"
  by (simp add: maintains_def prog_simps)

lemma maintains_if:
  "(c \<Longrightarrow> maintains I m) \<Longrightarrow> (\<not> c \<Longrightarrow> maintains I m') \<Longrightarrow> maintains I (if c then m else m')"
  by simp

lemma maintains_callback: "maintains I m \<Longrightarrow> maintains I (callback m)"
  by (auto simp: maintains_def callback_def final_def split: prod.split)

lemmas maintains_intros = maintains_bnd maintains_ret maintains_raise maintains_print
  maintains_get_state maintains_lift maintains_ext_call maintains_get_attr maintains_modify
  maintains_if maintains_callback

lemma size_known_camera_state:
  "size_known_when_enabled w =
     (fst (camera_state w) \<noteq> None \<and>
      (fst (camera_state w) = Some True \<longrightarrow> snd (camera_state w) \<noteq> None))"
  by (simp add: camera_state_def size_known_when_enabled_def)

lemma preserves_camera_state_maintains:
  "preserves camera_state m \<Longrightarrow> maintains size_known_when_enabled m"
  by (simp add: preserves_def maintains_def size_known_camera_state)

lemma camera_state_index_face: "preserves camera_state (index_face en name)"
  unfolding index_face_def
  by (intro preserves_intros camera_state_take_picture camera_state_upload_image)

lemma maintains_loads: "maintains I (loads p)"
  by (cases p) (simp_all add: loads_def maintains_intros)

lemma maintains_enable_camera: "maintains size_known_when_enabled enable_camera"
  unfolding enable_camera_def
  apply (simp add: maintains_def prog_simps size_known_when_enabled_def)
  done

lemma maintains_disable_camera: "maintains size_known_when_enabled disable_camera"
  by (simp add: disable_camera_def maintains_def prog_simps size_known_when_enabled_def)

lemma maintains_trigger_condition: "maintains I (trigger_condition once v)"
  by (cases v) (simp_all add: trigger_condition_def maintains_intros)

lemma maintains_use_camera: "maintains size_known_when_enabled (use_camera once en)"
  unfolding use_camera_def
  by (intro maintains_intros maintains_trigger_condition
      preserves_camera_state_maintains[OF camera_state_take_picture]
      preserves_camera_state_maintains[OF camera_state_upload_image]
      preserves_camera_state_maintains[OF camera_state_analyse_image])
    (simp add: size_known_when_enabled_def)

lemma maintains_message_received: "maintains size_known_when_enabled (message_received en msg)"
  unfolding message_received_def
  by (intro maintains_intros maintains_loads maintains_enable_camera maintains_disable_camera
      maintains_use_camera preserves_camera_state_maintains[OF camera_state_index_face])

lemma maintains_main_loop_body: "maintains size_known_when_enabled (main_loop_body en)"
  unfolding main_loop_body_def
  by (intro maintains_intros maintains_use_camera)

lemma maintains_main_loop: "maintains size_known_when_enabled (main_loop ss)"
  by (induction ss rule: main_loop.induct)
     (simp_all add: maintains_intros maintains_main_loop_body maintains_message_received)

lemma outcome_bnd_neq:
  "outcome (m w) \<noteq> Inl e \<Longrightarrow>
   (\<And>x. outcome (m w) = Inr x \<Longrightarrow> outcome (f x (final (m w))) \<noteq> Inl e) \<Longrightarrow>
   outcome (bnd m f w) \<noteq> Inl e"
  by (auto simp: outcome_bnd split: sum.split)

lemma size_change_errors: "size_change p n = Inl e \<Longrightarrow> e = OverflowError"
  by (auto simp: size_change_def int_truediv_def Let_def split: if_splits sum.splits)

lemma never_attribute_error_upload_and_analyse:
  "never_raises AttributeError (upload_and_analyse en)"
  unfolding upload_and_analyse_def upload_image_and_get_key_def analyse_image_def
    upload_seen_def Let_def
  by (intro never_raises_intros) simp_all

lemma use_camera_periodic_no_attribute_error:
  assumes "uc_size w \<noteq> None"
  shows "outcome (use_camera False en w) \<noteq> Inl AttributeError"
proof (cases "capture_r en")
  case None
  then show ?thesis by (simp add: use_camera_capture_fails tuple_simps)
next
  case (Some dta)
  from assms obtain p where p: "uc_size w = Some p" by blast
  have "outcome (upload_and_analyse en w') \<noteq> Inl AttributeError" for w'
    using never_attribute_error_upload_and_analyse[of en] by (simp add: never_raises_def)
  then show ?thesis
    unfolding use_camera_periodic_eq[OF Some p]
    by (auto simp: tuple_simps split: sum.split dest: size_change_errors)
qed

lemma main_loop_body_no_attribute_error:
  assumes "size_known_when_enabled w"
  shows "outcome (main_loop_body en w) \<noteq> Inl AttributeError"
proof -
  from assms obtain on where on: "uc_camera_enabled w = Some on"
    by (auto simp: size_known_when_enabled_def)
  show ?thesis
  proof (cases on)
    case True
    with on assms have "uc_size w \<noteq> None"
      by (simp add: size_known_when_enabled_def)
    then show ?thesis
      using on True use_camera_periodic_no_attribute_error[of w en]
      by (simp add: main_loop_body_enabled tuple_simps)
  next
    case False
    with on show ?thesis
      by (simp add: main_loop_body_def prog_simps)
  qed
qed

lemma main_loop_no_attribute_error:
  "size_known_when_enabled w \<Longrightarrow> outcome (main_loop ss w) \<noteq> Inl AttributeError"
proof (induction ss arbitrary: w)
  case Nil
  then show ?case by (simp add: ret_def outcome_def)
next
  case (Cons s ss)
  show ?case
  proof (cases s)
    case (Tick en)
    have known: "size_known_when_enabled (final (main_loop_body en w))"
      using maintains_main_loop_body[of en] Cons.prems by (simp add: maintains_def)
    have "outcome (bnd (main_loop_body en) (\<lambda>_. main_loop ss) w) \<noteq> Inl AttributeError"
    proof (rule outcome_bnd_neq)
      show "outcome (main_loop_body en w) \<noteq> Inl AttributeError"
        using Cons.prems by (rule main_loop_body_no_attribute_error)
      show "outcome (main_loop ss (final (main_loop_body en w))) \<noteq> Inl AttributeError"
        using known by (rule Cons.IH)
    qed
    with Tick show ?thesis by simp
  next
    case (Message en msg)
    have known: "size_known_when_enabled (final (callback (message_received en msg) w))"
      using maintains_callback[OF maintains_message_received, of en msg] Cons.prems
      by (simp add: maintains_def)
    have "outcome (bnd (callback (message_received en msg)) (\<lambda>_. main_loop ss) w)
        \<noteq> Inl AttributeError"
    proof (rule outcome_bnd_neq)
      show "outcome (callback (message_received en msg) w) \<noteq> Inl AttributeError"
        by (simp add: callback_def outcome_def split: prod.split)
      show "outcome (main_loop ss (final (callback (message_received en msg) w)))
          \<noteq> Inl AttributeError"
        using known by (rule Cons.IH)
    qed
    with Message show ?thesis by simp
  qed
qed

lemma main_setup_result:
  "(outcome (main_setup mq w) = Inr () \<and>
    final (main_setup mq w) = w\<lparr>uc_camera_enabled := Some False\<rparr>) \<or>
   (outcome (main_setup mq w) = Inl (ServiceError MQTT) \<and> final (main_setup mq w) = w)"
  by (simp add: main_setup_def prog_simps split: option.split)

text \<open>
  C9, as stated, fails: after the start of \<open>main\<close> the remembered size is not 0; the
  attribute \<open>use_camera.size\<close> does not exist yet.
\<close>

theorem initial_size_unassigned_counterexample:
  "outcome (main_setup (\<lambda>c. Some ()) (initial_world Map.empty)) = Inr () \<and>
   uc_size (final (main_setup (\<lambda>c. Some ()) (initial_world Map.empty))) \<noteq> Some 0"
  by (simp add: main_setup_def prog_simps initial_world_def)

text \<open>
  C9, amended.  When \<open>main\<close> has started, before any command, the enabled flag is
  false and the remembered size is not assigned; \<open>enable_camera\<close> is what first
  assigns it (to 0).  In every run, whatever messages arrive and whatever the outside
  world answers, the remembered size is assigned whenever the flag is true, and \<open>main\<close>
  never ends in an \<open>AttributeError\<close>: no periodic capture reads a missing attribute.
\<close>

theorem last_size_is_assigned_by_enable:
  "(outcome (main_setup mq (initial_world b)) = Inr () \<longrightarrow>
      uc_camera_enabled (final (main_setup mq (initial_world b))) = Some False \<and>
      uc_size (final (main_setup mq (initial_world b))) = None) \<and>
   (uc_camera_enabled (final (main mq ss (initial_world b))) = Some True \<longrightarrow>
      uc_size (final (main mq ss (initial_world b))) \<noteq> None) \<and>
   outcome (main mq ss (initial_world b)) \<noteq> Inl AttributeError"
proof (intro conjI)
  let ?w0 = "initial_world b"
  let ?w1 = "?w0\<lparr>uc_camera_enabled := Some False\<rparr>"
  have known: "size_known_when_enabled ?w1"
    by (simp add: size_known_when_enabled_def)
  show "outcome (main_setup mq ?w0) = Inr () \<longrightarrow>
      uc_camera_enabled (final (main_setup mq ?w0)) = Some False \<and>
      uc_size (final (main_setup mq ?w0)) = None"
    using main_setup_result[of mq ?w0] by (auto simp: initial_world_def)
  show "uc_camera_enabled (final (main mq ss ?w0)) = Some True \<longrightarrow>
      uc_size (final (main mq ss ?w0)) \<noteq> None"
  proof (cases "outcome (main_setup mq ?w0)")
    case (Inl e)
    with main_setup_result[of mq ?w0] show ?thesis
      by (simp add: main_def final_bnd initial_world_def)
  next
    case (Inr u)
    with main_setup_result[of mq ?w0]
    have "final (main mq ss ?w0) = final (main_loop ss ?w1)"
      by (simp add: main_def final_bnd)
    moreover have "size_known_when_enabled (final (main_loop ss ?w1))"
      using maintains_main_loop[of ss] known by (simp add: maintains_def)
    ultimately show ?thesis
      by (simp add: size_known_when_enabled_def)
  qed
  show "outcome (main mq ss ?w0) \<noteq> Inl AttributeError"
    unfolding main_def
  proof (rule outcome_bnd_neq)
    show "outcome (main_setup mq ?w0) \<noteq> Inl AttributeError"
      using main_setup_result[of mq ?w0] by auto
    show "outcome (main_loop ss (final (main_setup mq ?w0))) \<noteq> Inl AttributeError"
      if "outcome (main_setup mq ?w0) = Inr x" for x
    proof -
      from main_setup_result[of mq ?w0] that
      have "final (main_setup mq ?w0) = ?w1" by auto
      with known show ?thesis
        by (simp add: main_loop_no_attribute_error)
    qed
  qed
qed

theorem last_size_is_assigned_by_enable_witness:
  "outcome (main_setup (\<lambda>c. Some ()) (initial_world Map.empty)) = Inr () \<and>
   uc_camera_enabled (final (main_setup (\<lambda>c. Some ()) (initial_world Map.empty))) = Some False \<and>
   uc_size (final (main_setup (\<lambda>c. Some ()) (initial_world Map.empty))) = None \<and>
   uc_camera_enabled (final (main (\<lambda>c. Some ())
      [Message example_env example_enable_message] (initial_world Map.empty))) = Some True \<and>
   uc_size (final (main (\<lambda>c. Some ())
      [Message example_env example_enable_message] (initial_world Map.empty))) \<noteq> None"
proof -
  have started: "outcome (main_setup (\<lambda>c. Some ()) (initial_world Map.empty)) = Inr ()"
    by (simp add: main_setup_def prog_simps)
  have msg: "message_received example_env example_enable_message w =
    (Inr (), w\<lparr>uc_size := Some 0, uc_camera_enabled := Some True\<rparr>,
     [Print ''Received a new message: '' [],
      Print ''{}'' [PPayload (payload example_enable_message)],
      Print ''from topic: '' [], Print ''{}'' [PStr (topic example_enable_message)],
      Print ''--------------\<newline>\<newline>'' [], Print ''Camera enabled'' []])" for w
    by (rule message_received_enable[where d = "[(''camera'', JStr ''enable'')]"])
       (simp_all add: example_enable_message_def)
  have enabled: "uc_camera_enabled (final (main (\<lambda>c. Some ())
      [Message example_env example_enable_message] (initial_world Map.empty))) = Some True"
    by (simp add: main_def main_setup_def callback_def msg prog_simps)
  from last_size_is_assigned_by_enable[of "\<lambda>c. Some ()" Map.empty
      "[Message example_env example_enable_message]"] started enabled
  show ?thesis by blast
qed

subsection \<open>The local variable of the trigger condition\<close>

lemma size_change_not_unbound: "size_change p n \<noteq> Inl UnboundLocalError"
  by (simp add: size_change_def int_truediv_def Let_def split: sum.split)

lemma never_unbound_take_picture: "never_raises UnboundLocalError (take_picture en)"
  unfolding take_picture_def by (intro never_raises_intros) simp_all

lemma never_unbound_upload_image: "never_raises UnboundLocalError (upload_image_and_get_key en)"
  unfolding upload_image_and_get_key_def Let_def by (intro never_raises_intros) simp_all

lemma never_unbound_upload_seen: "never_raises UnboundLocalError (upload_seen en b)"
  unfolding upload_seen_def by (intro never_raises_intros) simp_all

lemma never_unbound_analyse_image: "never_raises UnboundLocalError (analyse_image en key)"
  unfolding analyse_image_def Let_def
  by (intro never_raises_intros never_unbound_upload_seen) simp_all

lemma never_unbound_upload_then_analyse:
  "never_raises UnboundLocalError (bnd (upload_image_and_get_key en) (analyse_image en))"
  by (intro never_raises_bnd never_unbound_upload_image never_unbound_analyse_image)

lemma never_unbound_use_camera: "never_raises UnboundLocalError (use_camera once en)"
proof (cases once)
  case True
  then show ?thesis
    unfolding use_camera_def trigger_condition_def
    by (intro never_raises_intros never_unbound_take_picture never_unbound_upload_then_analyse)
      simp_all
next
  case False
  let ?block = "bnd (get_attr uc_size) (\<lambda>previous_size.
            bnd (modify (\<lambda>w. w\<lparr>uc_size := Some (bytesio_tell (image_buf w))\<rparr>)) (\<lambda>_.
            bnd (get_attr uc_size) (\<lambda>new_size.
            bnd (lift (size_change previous_size new_size)) (\<lambda>c.
            bnd (print ''size: {0} - previous: {1} - change: {2}''
                   [PNat new_size, PNat previous_size, PNum c]) (\<lambda>_.
            ret (Some c))))))"
  have assigned: "returns_only (\<lambda>v. v \<noteq> None) ?block"
    by (intro returns_only_bnd returns_only_ret) simp
  have block: "never_raises UnboundLocalError ?block"
    by (intro never_raises_intros) (simp_all add: size_change_not_unbound)
  have rest: "never_raises UnboundLocalError
      (bnd (trigger_condition False v) (\<lambda>trigger.
         if trigger then bnd (upload_image_and_get_key en) (analyse_image en) else ret ()))"
    if "v \<noteq> None" for v
    using that unfolding trigger_condition_def
    by (cases v) (auto intro!: never_raises_intros never_unbound_upload_then_analyse)
  show ?thesis
    unfolding use_camera_def using False
    by (auto intro!: never_raises_bnd never_unbound_take_picture
        never_raises_bnd_returns[OF block assigned] rest)
qed

text \<open>
  C10.  No run of \<open>use_camera\<close> reads its local \<open>size_change\<close> before assigning it: with
  \<open>once=True\<close> the condition is true without the comparison being evaluated, although
  the local is unassigned, and for either value of \<open>once\<close>, every environment and
  every state the call never ends in \<open>UnboundLocalError\<close>.
\<close>

theorem use_camera_never_reads_unassigned:
  "trigger_condition True None = ret True \<and>
   outcome (use_camera once en w) \<noteq> Inl UnboundLocalError"
  using never_unbound_use_camera[of once en]
  by (simp add: trigger_condition_def never_raises_def)

theorem use_camera_never_reads_unassigned_witness:
  "outcome (use_camera False example_env example_world) \<noteq> Inl UnboundLocalError \<and>
   outcome (use_camera True example_env example_world) \<noteq> Inl UnboundLocalError"
  using use_camera_never_reads_unassigned[of False example_env example_world]
    use_camera_never_reads_unassigned[of True example_env example_world]
  by simp

end
